theory Spec2Isabelle
  imports Complex_Main
begin

section \<open>Tensors, dictionaries and the errors of the collaborators\<close>

text \<open>
  The adapter \<open>DatasetForSAITS\<close> of \<open>pypots/imputation/saits/data.py\<close> handles
  torch tensors, numpy arrays read from an h5 file, and Python dictionaries. A tensor is
  its dtype, its shape and its elements in row-major order. An element is an integer, a
  floating-point number, an infinity or NaN (the marker of a missing value).
  Floating-point numbers are represented by the real number they denote and integers are
  unbounded: the rounding and the overflow of a narrowing cast are not part of the model.
\<close>

datatype error =
    IndexError
  | KeyError string
  | TypeError
  | AttributeError
  | OSError
  | ValueError
  | RuntimeError

datatype dtype = Float32 | Float64 | Int32 | Int64

datatype scalar = IntV int | FloatV real | NaN | PosInf | NegInf

record tensor =
  dtype_of :: dtype
  shape :: "nat list"
  elems :: "scalar list"

definition is_floating :: "dtype \<Rightarrow> bool" where
  "is_floating d = (d = Float32 \<or> d = Float64)"

text \<open>Conversion of one element to a dtype: an integer becomes the float of the same
  value; a float becomes an integer by truncation toward zero; NaN and the infinities stay
  as they are.\<close>

fun convert :: "dtype \<Rightarrow> scalar \<Rightarrow> scalar" where
  "convert d (IntV n) = (if is_floating d then FloatV (of_int n) else IntV n)"
| "convert d (FloatV x) =
     (if is_floating d then FloatV x
      else IntV (if 0 \<le> x then \<lfloor>x\<rfloor> else \<lceil>x\<rceil>))"
| "convert d NaN = NaN"
| "convert d PosInf = PosInf"
| "convert d NegInf = NegInf"

text \<open>\<open>t.to(d)\<close>: the same shape, the dtype \<open>d\<close>, every element converted. It never
  raises.\<close>

definition to :: "tensor \<Rightarrow> dtype \<Rightarrow> tensor" where
  "to t d = \<lparr>dtype_of = d, shape = shape t, elems = map (convert d) (elems t)\<rparr>"

text \<open>\<open>torch.tensor(a, dtype=torch.long)\<close> on what indexing an h5 dataset gives. A numpy
  scalar (no axis) is converted with a check: NaN, an infinity, an integer outside the
  range of int64 and a float below \<open>-2^63\<close> or above \<open>2^63\<close> raise \<open>RuntimeError\<close>. An
  array is converted element by element, as \<open>to\<close> does.\<close>

definition fits_int64 :: "scalar \<Rightarrow> bool" where
  "fits_int64 v =
     (case v of
        IntV n \<Rightarrow> - (2 ^ 63) \<le> n \<and> n < 2 ^ 63
      | FloatV x \<Rightarrow> - (2 ^ 63) \<le> x \<and> x \<le> 2 ^ 63
      | NaN \<Rightarrow> False
      | PosInf \<Rightarrow> False
      | NegInf \<Rightarrow> False)"

definition torch_tensor_long :: "tensor \<Rightarrow> error + tensor" where
  "torch_tensor_long a =
     (if shape a = [] \<and> \<not> list_all fits_int64 (elems a)
      then Inl RuntimeError
      else Inr (to a Int64))"

text \<open>\<open>torch.tensor(idx)\<close> on a Python integer: a zero-dimensional int64 tensor.\<close>

definition torch_tensor :: "int \<Rightarrow> tensor" where
  "torch_tensor i = \<lparr>dtype_of = Int64, shape = [], elems = [IntV i]\<rparr>"

text \<open>\<open>t[i]\<close> with a Python integer: the \<open>i\<close>-th slice along the first axis, negative
  indices counting from the end; out of range, and on a tensor with no axis, the storage
  raises.\<close>

definition getitem :: "tensor \<Rightarrow> int \<Rightarrow> error + tensor" where
  "getitem t i =
     (case shape t of
        [] \<Rightarrow> Inl IndexError
      | n # sh \<Rightarrow>
          (let j = (if i < 0 then int n + i else i)
           in if 0 \<le> j \<and> j < int n
              then Inr \<lparr>dtype_of = dtype_of t, shape = sh,
                        elems = take (prod_list sh) (drop (nat j * prod_list sh) (elems t))\<rparr>
              else Inl IndexError))"

text \<open>\<open>torch.from_numpy\<close> accepts an array only: indexing a one-dimensional h5 dataset
  gives a numpy scalar, which it rejects.\<close>

definition from_numpy :: "tensor \<Rightarrow> error + tensor" where
  "from_numpy a = (if shape a = [] then Inl TypeError else Inr a)"

text \<open>A dictionary with string keys (the data dict, and the content of an h5 file) is an
  association list; \<open>d[k]\<close> raises \<open>KeyError\<close> on a missing key.\<close>

type_synonym dict = "(string \<times> tensor) list"

definition dict_get :: "dict \<Rightarrow> string \<Rightarrow> error + tensor" where
  "dict_get d k = (case map_of d k of None \<Rightarrow> Inl (KeyError k) | Some v \<Rightarrow> Inr v)"

definition keys :: "dict \<Rightarrow> string list" where
  "keys d = map fst d"

section \<open>The adapter\<close>

datatype data_src = Dict dict | Path string

text \<open>The fields of the base class \<open>BaseDataset\<close> that the adapter reads and writes.
  \<open>X\<close> is \<open>None\<close> when the object has no array \<open>X\<close> (file mode): reading it raises
  \<open>AttributeError\<close>. \<open>y\<close> is \<open>None\<close> when there are no labels, \<open>file_handle\<close> is
  \<open>None\<close> until the file is opened.\<close>

record base_dataset =
  data :: data_src
  return_labels :: bool
  file_type :: string
  X :: "tensor option"
  y :: "tensor option"
  file_handle :: "dict option"

text \<open>\<open>class DatasetForSAITS(BaseDataset)\<close> adds the field \<open>rate\<close>.\<close>

record adapter = base_dataset +
  rate :: real

text \<open>The corruption routine \<open>mcar\<close> of the library \<open>pycorruptor\<close> is a collaborator:
  the fetch operations take it as a parameter. One call of it, at a series and a rate,
  returns the four tensors or raises. Its random draw is part of the parameter, so two
  calls are two parameters. It is taken to work on a copy of the series it is given: it
  returns new tensors and writes nothing into the stored data.\<close>

type_synonym corruptor = "tensor \<Rightarrow> real \<Rightarrow> error + (tensor \<times> tensor \<times> tensor \<times> tensor)"

text \<open>Opening an h5 file is a collaborator too: what \<open>h5py.File\<close> returns for the
  \<open>data\<close> field of the adapter.\<close>

type_synonym opener = "data_src \<Rightarrow> error + dict"

text \<open>Modelled from the spec: the constructor of the base class \<open>BaseDataset\<close>
  (\<open>pypots/data/base.py\<close>) is not among the sources. By the spec the input is a mapping
  with at least a time-series key and optionally a label key, loaded once at construction,
  or a path to a file with the same keys, opened lazily on first access.\<close>

definition base_init :: "data_src \<Rightarrow> bool \<Rightarrow> string \<Rightarrow> error + base_dataset" where
  "base_init d rl ft =
     (case d of
        Dict m \<Rightarrow>
          (case dict_get m ''X'' of
             Inl e \<Rightarrow> Inl e
           | Inr x \<Rightarrow>
               Inr \<lparr>data = d, return_labels = rl, file_type = ft, X = Some x,
                    y = map_of m ''y'', file_handle = None\<rparr>)
      | Path p \<Rightarrow>
          Inr \<lparr>data = d, return_labels = rl, file_type = ft, X = None,
               y = None, file_handle = None\<rparr>)"

text \<open>Modelled from the spec: \<open>_open_file_handle\<close> of the base class is not among the
  sources. It opens the file that the \<open>data\<close> field names.\<close>

definition open_file_handle :: "opener \<Rightarrow> adapter \<Rightarrow> error + dict" where
  "open_file_handle h5 self = h5 (data self)"

text \<open>\<open>__init__\<close>: the base constructor \<open>super().__init__(data, return_labels, file_type)\<close>,
  then \<open>self.rate = rate\<close>. The rate is stored as it is given.\<close>

definition init :: "data_src \<Rightarrow> bool \<Rightarrow> string \<Rightarrow> real \<Rightarrow> error + adapter" where
  "init d rl ft r =
     (case base_init d rl ft of
        Inl e \<Rightarrow> Inl e
      | Inr self \<Rightarrow> Inr (base_dataset.extend self (adapter.fields r)))"

text \<open>\<open>_fetch_data_from_array\<close>. The result is the sample or the error raised, together
  with the adapter after the call.\<close>

definition fetch_data_from_array ::
  "corruptor \<Rightarrow> adapter \<Rightarrow> int \<Rightarrow> (error + tensor list) \<times> adapter" where
  "fetch_data_from_array mcar self idx =
     ((case X self of
         None \<Rightarrow> Inl AttributeError
       | Some Xs \<Rightarrow>
           (case getitem Xs idx of
              Inl e \<Rightarrow> Inl e
            | Inr X0 \<Rightarrow>
                (case mcar X0 (rate self) of
                   Inl e \<Rightarrow> Inl e
                 | Inr (X_intact, X1, missing_mask, indicating_mask) \<Rightarrow>
                     (let sample =
                        [torch_tensor idx,
                         to X_intact Float32,
                         to X1 Float32,
                         to missing_mask Float32,
                         to indicating_mask Float32]
                      in if y self \<noteq> None \<and> return_labels self
                         then (case getitem (the (y self)) idx of
                                 Inl e \<Rightarrow> Inl e
                               | Inr l \<Rightarrow> Inr (sample @ [to l Int64]))
                         else Inr sample)))),
      self)"

text \<open>\<open>_fetch_data_from_file\<close>. The file handle is opened when it is still unset and
  stored in the adapter; an error raised after that leaves it stored. The label is built
  with \<open>torch.tensor(..., dtype=torch.long)\<close>, which can raise, where the in-memory fetch
  casts a tensor with \<open>.to(torch.long)\<close>, which cannot.\<close>

definition fetch_data_from_file ::
  "opener \<Rightarrow> corruptor \<Rightarrow> adapter \<Rightarrow> int \<Rightarrow> (error + tensor list) \<times> adapter" where
  "fetch_data_from_file h5 mcar self idx =
     (let (opened, self1) =
        (case file_handle self of
           None \<Rightarrow>
             (case open_file_handle h5 self of
                Inl e \<Rightarrow> (Inl e, self)
              | Inr h \<Rightarrow> (Inr h, self\<lparr>file_handle := Some h\<rparr>))
         | Some h \<Rightarrow> (Inr h, self))
      in
      ((case opened of
          Inl e \<Rightarrow> Inl e
        | Inr fh \<Rightarrow>
            (case dict_get fh ''X'' of
               Inl e \<Rightarrow> Inl e
             | Inr ds \<Rightarrow>
                 (case getitem ds idx of
                    Inl e \<Rightarrow> Inl e
                  | Inr a \<Rightarrow>
                      (case from_numpy a of
                         Inl e \<Rightarrow> Inl e
                       | Inr X0 \<Rightarrow>
                           (case mcar X0 (rate self1) of
                              Inl e \<Rightarrow> Inl e
                            | Inr (X_intact, X1, missing_mask, indicating_mask) \<Rightarrow>
                                (let sample =
                                   [torch_tensor idx,
                                    to X_intact Float32,
                                    to X1 Float32,
                                    to missing_mask Float32,
                                    to indicating_mask Float32]
                                 in if ''y'' \<in> set (keys fh) \<and> return_labels self1
                                    then (case dict_get fh ''y'' of
                                            Inl e \<Rightarrow> Inl e
                                          | Inr ys \<Rightarrow>
                                              (case getitem ys idx of
                                                 Inl e \<Rightarrow> Inl e
                                               | Inr l \<Rightarrow>
                                                   (case torch_tensor_long l of
                                                      Inl e \<Rightarrow> Inl e
                                                    | Inr label \<Rightarrow>
                                                        Inr (sample @ [label]))))
                                    else Inr sample)))))),
       self1))"

section \<open>The corruption routine and the caller\<close>

text \<open>Modelled from the spec: \<open>mcar\<close> belongs to the library \<open>pycorruptor\<close> and is not
  among the sources. By the spec it randomly hides a fraction of the observed values and
  returns the original series, the corrupted series of the same shape, the observed-value
  mask (1 = not missing in the corrupted series) and the artificial mask (1 = present in
  the original series but masked out). The random draw is the argument \<open>draw\<close>:
  \<open>draw r p\<close> tells whether, at rate \<open>r\<close>, position \<open>p\<close> is selected for hiding.\<close>

definition mcar_spec :: "(real \<Rightarrow> nat \<Rightarrow> bool) \<Rightarrow> corruptor" where
  "mcar_spec draw X0 r =
     (let hidden = map (\<lambda>p. elems X0 ! p \<noteq> NaN \<and> draw r p) [0..<length (elems X0)];
          corrupted = map (\<lambda>(v, h). if h then NaN else v) (zip (elems X0) hidden);
          missing_mask = map (\<lambda>v. if v \<noteq> NaN then FloatV 1 else FloatV 0) corrupted;
          indicating_mask = map (\<lambda>h. if h then FloatV 1 else FloatV 0) hidden
      in Inr (X0,
              X0\<lparr>elems := corrupted\<rparr>,
              \<lparr>dtype_of = Float32, shape = shape X0, elems = missing_mask\<rparr>,
              \<lparr>dtype_of = Float32, shape = shape X0, elems = indicating_mask\<rparr>))"

text \<open>A caller that fetches one sample after the other from a file-backed adapter, each
  request with its index and its call of the corruption routine; the adapter after the
  last request.\<close>

fun after_fetches :: "opener \<Rightarrow> adapter \<Rightarrow> (corruptor \<times> int) list \<Rightarrow> adapter" where
  "after_fetches h5 self [] = self"
| "after_fetches h5 self ((mcar, idx) # reqs) =
     after_fetches h5 (snd (fetch_data_from_file h5 mcar self idx)) reqs"

section \<open>A small dataset\<close>

text \<open>Two samples of two time steps and one feature, one value missing, with labels;
  the same data as a dict and as the content of the file \<open>train.h5\<close>.\<close>

definition ex_X :: tensor where
  "ex_X = \<lparr>dtype_of = Float64, shape = [2, 2, 1],
            elems = [FloatV 1, NaN, FloatV 3, FloatV 4]\<rparr>"

definition ex_y :: tensor where
  "ex_y = \<lparr>dtype_of = Int32, shape = [2], elems = [IntV 0, IntV 1]\<rparr>"

definition ex_dict :: dict where
  "ex_dict = [(''X'', ex_X), (''y'', ex_y)]"

definition ex_h5 :: opener where
  "ex_h5 d = (if d = Path ''train.h5'' then Inr ex_dict else Inl OSError)"

definition ex_array :: adapter where
  "ex_array = \<lparr>data = Dict ex_dict, return_labels = True, file_type = ''h5py'',
                X = Some ex_X, y = Some ex_y, file_handle = None, rate = 1 / 5\<rparr>"

definition ex_file :: adapter where
  "ex_file = \<lparr>data = Path ''train.h5'', return_labels = True, file_type = ''h5py'',
               X = None, y = None, file_handle = None, rate = 1 / 5\<rparr>"




text \<open>Two outcomes of the random draw: the first hides position 0, the second
  position 1.\<close>

definition ex_draw0 :: "real \<Rightarrow> nat \<Rightarrow> bool" where
  "ex_draw0 r p = (p = 0)"

definition ex_draw1 :: "real \<Rightarrow> nat \<Rightarrow> bool" where
  "ex_draw1 r p = (p = 1)"

text \<open>The second stored series and its label, what the corruption routine returns for
  that series under the first draw, and the sample fetched at index 1.\<close>

definition ex_X1 :: tensor where
  "ex_X1 = \<lparr>dtype_of = Float64, shape = [2, 1], elems = [FloatV 3, FloatV 4]\<rparr>"

definition ex_label :: tensor where
  "ex_label = \<lparr>dtype_of = Int32, shape = [], elems = [IntV 1]\<rparr>"

definition ex_corrupted :: tensor where
  "ex_corrupted = \<lparr>dtype_of = Float64, shape = [2, 1], elems = [NaN, FloatV 4]\<rparr>"

definition ex_missing_mask :: tensor where
  "ex_missing_mask = \<lparr>dtype_of = Float32, shape = [2, 1], elems = [FloatV 0, FloatV 1]\<rparr>"

definition ex_indicating_mask :: tensor where
  "ex_indicating_mask = \<lparr>dtype_of = Float32, shape = [2, 1], elems = [FloatV 1, FloatV 0]\<rparr>"

definition ex_sample :: "tensor list" where
  "ex_sample =
     [torch_tensor 1, to ex_X1 Float32, to ex_corrupted Float32,
      to ex_missing_mask Float32, to ex_indicating_mask Float32, to ex_label Int64]"

text \<open>The same under the second draw.\<close>

definition ex_corrupted1 :: tensor where
  "ex_corrupted1 = \<lparr>dtype_of = Float64, shape = [2, 1], elems = [FloatV 3, NaN]\<rparr>"

definition ex_missing_mask1 :: tensor where
  "ex_missing_mask1 = \<lparr>dtype_of = Float32, shape = [2, 1], elems = [FloatV 1, FloatV 0]\<rparr>"

definition ex_indicating_mask1 :: tensor where
  "ex_indicating_mask1 = \<lparr>dtype_of = Float32, shape = [2, 1], elems = [FloatV 0, FloatV 1]\<rparr>"

definition ex_sample1 :: "tensor list" where
  "ex_sample1 =
     [torch_tensor 1, to ex_X1 Float32, to ex_corrupted1 Float32,
      to ex_missing_mask1 Float32, to ex_indicating_mask1 Float32, to ex_label Int64]"

section \<open>What a fetch returns\<close>

text \<open>The result of each fetch operation when every collaborator call succeeds, and,
  conversely, the collaborator calls behind every returned sample.\<close>

lemma torch_tensor_long_result: "torch_tensor_long a = Inr t \<Longrightarrow> t = to a Int64"
  by (simp add: torch_tensor_long_def split: if_splits)

lemma fetch_array_returns:
  assumes "X self = Some Xs" and "getitem Xs idx = Inr X0"
    and "mcar X0 (rate self) = Inr (xi, xc, mm, im)"
    and "y self \<noteq> None \<and> return_labels self \<Longrightarrow> getitem (the (y self)) idx = Inr l"
  shows "fetch_data_from_array mcar self idx =
           (Inr ([torch_tensor idx, to xi Float32, to xc Float32, to mm Float32, to im Float32]
                 @ (if y self \<noteq> None \<and> return_labels self then [to l Int64] else [])),
            self)"
  using assms by (simp add: fetch_data_from_array_def)

lemma fetch_array_sample:
  assumes "fst (fetch_data_from_array mcar self idx) = Inr s"
  shows "\<exists>Xs X0 xi xc mm im lab.
           X self = Some Xs \<and> getitem Xs idx = Inr X0 \<and>
           mcar X0 (rate self) = Inr (xi, xc, mm, im) \<and>
           s = [torch_tensor idx, to xi Float32, to xc Float32, to mm Float32, to im Float32] @ lab \<and>
           (if y self \<noteq> None \<and> return_labels self
            then \<exists>l. getitem (the (y self)) idx = Inr l \<and> lab = [to l Int64]
            else lab = [])"
  using assms
  by (auto simp add: fetch_data_from_array_def Let_def split: option.splits sum.splits if_splits)

lemma fetch_file_returns:
  assumes "file_handle self = Some fh \<or> (file_handle self = None \<and> open_file_handle h5 self = Inr fh)"
    and "dict_get fh ''X'' = Inr ds" and "getitem ds idx = Inr X0" and "shape X0 \<noteq> []"
    and "mcar X0 (rate self) = Inr (xi, xc, mm, im)"
    and "''y'' \<in> set (keys fh) \<and> return_labels self \<Longrightarrow>
           \<exists>ys l. dict_get fh ''y'' = Inr ys \<and> getitem ys idx = Inr l \<and>
                  torch_tensor_long l = Inr label"
  shows "fetch_data_from_file h5 mcar self idx =
           (Inr ([torch_tensor idx, to xi Float32, to xc Float32, to mm Float32, to im Float32]
                 @ (if ''y'' \<in> set (keys fh) \<and> return_labels self then [label] else [])),
            self\<lparr>file_handle := Some fh\<rparr>)"
  using assms by (auto simp add: fetch_data_from_file_def from_numpy_def)

lemma fetch_file_sample:
  assumes "fst (fetch_data_from_file h5 mcar self idx) = Inr s"
  shows "\<exists>fh ds X0 xi xc mm im lab.
           (file_handle self = Some fh \<or> (file_handle self = None \<and> open_file_handle h5 self = Inr fh)) \<and>
           dict_get fh ''X'' = Inr ds \<and> getitem ds idx = Inr X0 \<and> shape X0 \<noteq> [] \<and>
           mcar X0 (rate self) = Inr (xi, xc, mm, im) \<and>
           s = [torch_tensor idx, to xi Float32, to xc Float32, to mm Float32, to im Float32] @ lab \<and>
           (if ''y'' \<in> set (keys fh) \<and> return_labels self
            then \<exists>ys l. dict_get fh ''y'' = Inr ys \<and> getitem ys idx = Inr l \<and>
                   torch_tensor_long l = Inr (to l Int64) \<and> lab = [to l Int64]
            else lab = [])"
  using assms
  by (auto simp add: fetch_data_from_file_def from_numpy_def Let_def
      dest: torch_tensor_long_result split: option.splits sum.splits if_splits)

lemma fetch_file_state:
  "snd (fetch_data_from_file h5 mcar self idx) =
     (case file_handle self of
        Some h \<Rightarrow> self
      | None \<Rightarrow> (case open_file_handle h5 self of Inl e \<Rightarrow> self | Inr h \<Rightarrow> self\<lparr>file_handle := Some h\<rparr>))"
  by (simp add: fetch_data_from_file_def split: option.splits sum.splits)

section \<open>The small dataset, evaluated\<close>

lemma ex_getitem_X: "getitem ex_X 1 = Inr ex_X1"
  by (simp add: getitem_def ex_X_def ex_X1_def)

lemma ex_getitem_y: "getitem ex_y 1 = Inr ex_label"
  by (simp add: getitem_def ex_y_def ex_label_def)

lemma ex_label_long: "torch_tensor_long ex_label = Inr (to ex_label Int64)"
  by (simp add: torch_tensor_long_def ex_label_def fits_int64_def)


lemma ex_from_numpy: "from_numpy ex_X1 = Inr ex_X1"
  by (simp add: from_numpy_def ex_X1_def)

lemma ex_mcar0:
  "mcar_spec ex_draw0 ex_X1 r =
     Inr (ex_X1, ex_corrupted, ex_missing_mask, ex_indicating_mask)"
  by (simp add: mcar_spec_def ex_draw0_def ex_X1_def ex_corrupted_def ex_missing_mask_def
      ex_indicating_mask_def upt_conv_Cons)

lemma ex_fetch_array:
  "fetch_data_from_array (mcar_spec ex_draw0) ex_array 1 = (Inr ex_sample, ex_array)"
  by (simp add: fetch_data_from_array_def ex_array_def ex_getitem_X ex_getitem_y ex_mcar0
      ex_sample_def)

lemma ex_fetch_file:
  "fetch_data_from_file ex_h5 (mcar_spec ex_draw0) ex_file 1 =
     (Inr ex_sample, ex_file\<lparr>file_handle := Some ex_dict\<rparr>)"
  by (simp add: fetch_data_from_file_def ex_file_def open_file_handle_def ex_h5_def
      dict_get_def keys_def ex_dict_def ex_from_numpy ex_getitem_X ex_getitem_y ex_mcar0
      ex_label_long ex_sample_def)

lemma ex_sample_value:
  "ex_sample =
     [\<lparr>dtype_of = Int64, shape = [], elems = [IntV 1]\<rparr>,
      \<lparr>dtype_of = Float32, shape = [2, 1], elems = [FloatV 3, FloatV 4]\<rparr>,
      \<lparr>dtype_of = Float32, shape = [2, 1], elems = [NaN, FloatV 4]\<rparr>,
      \<lparr>dtype_of = Float32, shape = [2, 1], elems = [FloatV 0, FloatV 1]\<rparr>,
      \<lparr>dtype_of = Float32, shape = [2, 1], elems = [FloatV 1, FloatV 0]\<rparr>,
      \<lparr>dtype_of = Int64, shape = [], elems = [IntV 1]\<rparr>]"
  by (simp add: ex_sample_def to_def torch_tensor_def ex_X1_def ex_corrupted_def
      ex_missing_mask_def ex_indicating_mask_def ex_label_def is_floating_def)

lemma ex_init_array: "init (Dict ex_dict) True ''h5py'' (1 / 5) = Inr ex_array"
  by (simp add: init_def base_init_def dict_get_def ex_dict_def ex_array_def
      base_dataset.defs adapter.defs)

lemma ex_init_file: "init (Path ''train.h5'') True ''h5py'' (1 / 5) = Inr ex_file"
  by (simp add: init_def base_init_def ex_file_def base_dataset.defs adapter.defs)

lemma ex_shape_X1: "shape ex_X1 \<noteq> []"
  by (simp add: ex_X1_def)

lemma keys_map_of: "(k \<in> set (keys d)) = (map_of d k \<noteq> None)"
  by (simp add: keys_def map_of_eq_None_iff)

lemma init_dict_fields:
  assumes "init (Dict m) rl ft r = Inr self"
  shows "y self = map_of m ''y''" and "return_labels self = rl" and "rate self = r"
    and "\<exists>x. dict_get m ''X'' = Inr x \<and> X self = Some x" and "file_handle self = None"
  using assms
  by (auto simp add: init_def base_init_def base_dataset.defs adapter.defs split: sum.splits)

text \<open>Once the file handle is stored, no fetch changes the adapter.\<close>

lemma after_fetches_opened:
  "file_handle self = Some h \<Longrightarrow> after_fetches h5 self reqs = self"
  by (induction reqs arbitrary: self) (auto simp add: fetch_file_state)

lemma after_fetches_first:
  assumes "file_handle self = None" and "open_file_handle h5 self = Inr h" and "reqs \<noteq> []"
  shows "after_fetches h5 self reqs = self\<lparr>file_handle := Some h\<rparr>"
proof (cases reqs)
  case Nil
  with assms show ?thesis by simp
next
  case (Cons q qs)
  obtain mcar idx where q: "q = (mcar, idx)" by (cases q)
  have "snd (fetch_data_from_file h5 mcar self idx) = self\<lparr>file_handle := Some h\<rparr>"
    using assms by (simp add: fetch_file_state)
  with Cons q show ?thesis
    by (simp add: after_fetches_opened)
qed

lemma ex_mcar1:
  "mcar_spec ex_draw1 ex_X1 r =
     Inr (ex_X1, ex_corrupted1, ex_missing_mask1, ex_indicating_mask1)"
  by (simp add: mcar_spec_def ex_draw1_def ex_X1_def ex_corrupted1_def ex_missing_mask1_def
      ex_indicating_mask1_def upt_conv_Cons)

lemma ex_fetch_array1:
  "fetch_data_from_array (mcar_spec ex_draw1) ex_array 1 = (Inr ex_sample1, ex_array)"
  by (simp add: fetch_data_from_array_def ex_array_def ex_getitem_X ex_getitem_y ex_mcar1
      ex_sample1_def)

lemma ex_fetch_file1:
  "fetch_data_from_file ex_h5 (mcar_spec ex_draw1) (ex_file\<lparr>file_handle := Some ex_dict\<rparr>) 1 =
     (Inr ex_sample1, ex_file\<lparr>file_handle := Some ex_dict\<rparr>)"
  by (simp add: fetch_data_from_file_def ex_file_def dict_get_def keys_def ex_dict_def
      ex_from_numpy ex_getitem_X ex_getitem_y ex_mcar1 ex_label_long ex_sample1_def)

lemma ex_sample1_value:
  "ex_sample1 =
     [\<lparr>dtype_of = Int64, shape = [], elems = [IntV 1]\<rparr>,
      \<lparr>dtype_of = Float32, shape = [2, 1], elems = [FloatV 3, FloatV 4]\<rparr>,
      \<lparr>dtype_of = Float32, shape = [2, 1], elems = [FloatV 3, NaN]\<rparr>,
      \<lparr>dtype_of = Float32, shape = [2, 1], elems = [FloatV 1, FloatV 0]\<rparr>,
      \<lparr>dtype_of = Float32, shape = [2, 1], elems = [FloatV 0, FloatV 1]\<rparr>,
      \<lparr>dtype_of = Int64, shape = [], elems = [IntV 1]\<rparr>]"
  by (simp add: ex_sample1_def to_def torch_tensor_def ex_X1_def ex_corrupted1_def
      ex_missing_mask1_def ex_indicating_mask1_def ex_label_def is_floating_def)

section \<open>The modelled corruption routine\<close>

lemma mcar_spec_returns:
  "\<exists>xc mm im. mcar_spec draw X0 r = Inr (X0, xc, mm, im) \<and>
     shape xc = shape X0 \<and> shape mm = shape X0 \<and> shape im = shape X0 \<and>
     length (elems xc) = length (elems X0) \<and>
     length (elems mm) = length (elems X0) \<and>
     length (elems im) = length (elems X0) \<and>
     (\<forall>p<length (elems X0).
        elems im ! p = (if elems X0 ! p \<noteq> NaN \<and> draw r p then FloatV 1 else FloatV 0) \<and>
        elems xc ! p = (if elems X0 ! p \<noteq> NaN \<and> draw r p then NaN else elems X0 ! p) \<and>
        elems mm ! p = (if elems xc ! p \<noteq> NaN then FloatV 1 else FloatV 0))"
  by (simp add: mcar_spec_def Let_def)

lemma to_fields:
  "dtype_of (to t d) = d" "shape (to t d) = shape t"
  "length (elems (to t d)) = length (elems t)"
  by (simp_all add: to_def)

lemma to_float32_nth:
  "p < length (elems t) \<Longrightarrow> elems (to t Float32) ! p = convert Float32 (elems t ! p)"
  by (simp add: to_def)

lemma convert_float32_NaN: "(convert Float32 v = NaN) = (v = NaN)"
  by (cases v) (simp_all add: is_floating_def)

lemma convert_float32_FloatV: "convert Float32 (FloatV x) = FloatV x"
  by (simp add: is_floating_def)

text \<open>The five leading fields of a sample fetched with the modelled corruption routine,
  in terms of the stored series.\<close>

lemma masks_of_sample:
  assumes m: "mcar_spec draw X0 r = Inr (xi, xc, mm, im)"
    and s: "s = [i, to xi Float32, to xc Float32, to mm Float32, to im Float32] @ lab"
  shows "s ! 1 = to X0 Float32"
    and "shape (s ! 1) = shape X0 \<and> shape (s ! 2) = shape X0 \<and>
         shape (s ! 3) = shape X0 \<and> shape (s ! 4) = shape X0"
    and "length (elems (s ! 1)) = length (elems X0) \<and>
         length (elems (s ! 2)) = length (elems X0) \<and>
         length (elems (s ! 3)) = length (elems X0) \<and>
         length (elems (s ! 4)) = length (elems X0)"
    and "\<forall>p<length (elems X0).
           (elems (s ! 3) ! p = FloatV 0 \<or> elems (s ! 3) ! p = FloatV 1) \<and>
           (elems (s ! 4) ! p = FloatV 0 \<or> elems (s ! 4) ! p = FloatV 1) \<and>
           (elems (s ! 4) ! p = FloatV 1 \<longrightarrow>
              elems X0 ! p \<noteq> NaN \<and> elems (s ! 1) ! p \<noteq> NaN \<and>
              elems (s ! 2) ! p = NaN \<and> elems (s ! 3) ! p = FloatV 0)"
proof -
  from mcar_spec_returns [of draw X0 r] m
  have xi: "xi = X0"
    and sh: "shape xc = shape X0" "shape mm = shape X0" "shape im = shape X0"
    and len: "length (elems xc) = length (elems X0)" "length (elems mm) = length (elems X0)"
      "length (elems im) = length (elems X0)"
    and el: "\<forall>p<length (elems X0).
        elems im ! p = (if elems X0 ! p \<noteq> NaN \<and> draw r p then FloatV 1 else FloatV 0) \<and>
        elems xc ! p = (if elems X0 ! p \<noteq> NaN \<and> draw r p then NaN else elems X0 ! p) \<and>
        elems mm ! p = (if elems xc ! p \<noteq> NaN then FloatV 1 else FloatV 0)"
    by auto
  from s xi show "s ! 1 = to X0 Float32" by simp
  from s xi sh show "shape (s ! 1) = shape X0 \<and> shape (s ! 2) = shape X0 \<and>
         shape (s ! 3) = shape X0 \<and> shape (s ! 4) = shape X0"
    by (simp add: to_fields)
  from s xi len show "length (elems (s ! 1)) = length (elems X0) \<and>
         length (elems (s ! 2)) = length (elems X0) \<and>
         length (elems (s ! 3)) = length (elems X0) \<and>
         length (elems (s ! 4)) = length (elems X0)"
    by (simp add: to_fields)
  show "\<forall>p<length (elems X0).
           (elems (s ! 3) ! p = FloatV 0 \<or> elems (s ! 3) ! p = FloatV 1) \<and>
           (elems (s ! 4) ! p = FloatV 0 \<or> elems (s ! 4) ! p = FloatV 1) \<and>
           (elems (s ! 4) ! p = FloatV 1 \<longrightarrow>
              elems X0 ! p \<noteq> NaN \<and> elems (s ! 1) ! p \<noteq> NaN \<and>
              elems (s ! 2) ! p = NaN \<and> elems (s ! 3) ! p = FloatV 0)"
  proof (intro allI impI)
    fix p assume p: "p < length (elems X0)"
    with el have e: "elems im ! p = (if elems X0 ! p \<noteq> NaN \<and> draw r p then FloatV 1 else FloatV 0)"
      "elems xc ! p = (if elems X0 ! p \<noteq> NaN \<and> draw r p then NaN else elems X0 ! p)"
      "elems mm ! p = (if elems xc ! p \<noteq> NaN then FloatV 1 else FloatV 0)"
      by auto
    from p len s xi have n: "elems (s ! 1) ! p = convert Float32 (elems X0 ! p)"
      "elems (s ! 2) ! p = convert Float32 (elems xc ! p)"
      "elems (s ! 3) ! p = convert Float32 (elems mm ! p)"
      "elems (s ! 4) ! p = convert Float32 (elems im ! p)"
      by (simp_all add: to_float32_nth)
    show "(elems (s ! 3) ! p = FloatV 0 \<or> elems (s ! 3) ! p = FloatV 1) \<and>
           (elems (s ! 4) ! p = FloatV 0 \<or> elems (s ! 4) ! p = FloatV 1) \<and>
           (elems (s ! 4) ! p = FloatV 1 \<longrightarrow>
              elems X0 ! p \<noteq> NaN \<and> elems (s ! 1) ! p \<noteq> NaN \<and>
              elems (s ! 2) ! p = NaN \<and> elems (s ! 3) ! p = FloatV 0)"
      unfolding n e
      by (simp add: convert_float32_NaN is_floating_def)
  qed
qed

section \<open>Construction, and fetching twice\<close>

lemma init_path_fields:
  assumes "init (Path p) rl ft r = Inr self"
  shows "file_handle self = None" and "data self = Path p" and "rate self = r"
    and "return_labels self = rl"
  using assms
  by (auto simp add: init_def base_init_def base_dataset.defs adapter.defs)

lemma after_fetches_handle:
  assumes "file_handle self = None" and "open_file_handle h5 self = Inr h"
  shows "file_handle (after_fetches h5 self reqs) = Some h \<or>
         (file_handle (after_fetches h5 self reqs) = None \<and>
          open_file_handle h5 (after_fetches h5 self reqs) = Inr h)"
proof (cases "reqs = []")
  case True
  with assms show ?thesis by simp
next
  case False
  with assms have "after_fetches h5 self reqs = self\<lparr>file_handle := Some h\<rparr>"
    by (rule after_fetches_first)
  then show ?thesis by simp
qed

lemma refetch_array:
  assumes r: "fst (fetch_data_from_array (mcar_spec draw) self idx) = Inr s"
  shows "\<exists>s'. fst (fetch_data_from_array (mcar_spec draw')
                 (snd (fetch_data_from_array (mcar_spec draw) self idx)) idx) = Inr s' \<and>
              s' ! 1 = s ! 1"
proof -
  from fetch_array_sample [OF r]
  obtain Xs X0 xi xc mm im lab where st: "X self = Some Xs" "getitem Xs idx = Inr X0"
    and m: "mcar_spec draw X0 (rate self) = Inr (xi, xc, mm, im)"
    and s: "s = [torch_tensor idx, to xi Float32, to xc Float32, to mm Float32, to im Float32] @ lab"
    and l: "if y self \<noteq> None \<and> return_labels self
            then \<exists>l. getitem (the (y self)) idx = Inr l \<and> lab = [to l Int64]
            else lab = []"
    by blast
  have s1: "s ! 1 = to X0 Float32"
    by (rule masks_of_sample(1) [OF m s])
  from mcar_spec_returns [of draw' X0 "rate self"]
  obtain xc' mm' im' where m': "mcar_spec draw' X0 (rate self) = Inr (X0, xc', mm', im')"
    by blast
  from l obtain l0 where
    l0: "y self \<noteq> None \<and> return_labels self \<Longrightarrow> getitem (the (y self)) idx = Inr l0"
    by (auto split: if_splits)
  have same: "snd (fetch_data_from_array (mcar_spec draw) self idx) = self"
    by (simp add: fetch_data_from_array_def)
  from fetch_array_returns [where mcar = "mcar_spec draw'", OF st m' l0]
  have "fst (fetch_data_from_array (mcar_spec draw') self idx) =
          Inr ([torch_tensor idx, to X0 Float32, to xc' Float32, to mm' Float32, to im' Float32]
               @ (if y self \<noteq> None \<and> return_labels self then [to l0 Int64] else []))"
    by simp
  with same s1 show ?thesis by simp
qed

lemma refetch_file:
  assumes r: "fst (fetch_data_from_file h5 (mcar_spec draw) self idx) = Inr s"
  shows "\<exists>s'. fst (fetch_data_from_file h5 (mcar_spec draw')
                 (snd (fetch_data_from_file h5 (mcar_spec draw) self idx)) idx) = Inr s' \<and>
              s' ! 1 = s ! 1"
proof -
  from fetch_file_sample [OF r]
  obtain fh ds X0 xi xc mm im lab where
    h: "file_handle self = Some fh \<or>
        (file_handle self = None \<and> open_file_handle h5 self = Inr fh)"
    and st: "dict_get fh ''X'' = Inr ds" "getitem ds idx = Inr X0" "shape X0 \<noteq> []"
    and m: "mcar_spec draw X0 (rate self) = Inr (xi, xc, mm, im)"
    and s: "s = [torch_tensor idx, to xi Float32, to xc Float32, to mm Float32, to im Float32] @ lab"
    and l: "if ''y'' \<in> set (keys fh) \<and> return_labels self
            then \<exists>ys l. dict_get fh ''y'' = Inr ys \<and> getitem ys idx = Inr l \<and>
                   torch_tensor_long l = Inr (to l Int64) \<and> lab = [to l Int64]
            else lab = []"
    by blast
  have s1: "s ! 1 = to X0 Float32"
    by (rule masks_of_sample(1) [OF m s])
  let ?self' = "self\<lparr>file_handle := Some fh\<rparr>"
  from h have same: "snd (fetch_data_from_file h5 (mcar_spec draw) self idx) = ?self'"
    by (auto simp add: fetch_file_state)
  from mcar_spec_returns [of draw' X0 "rate ?self'"]
  obtain xc' mm' im' where m': "mcar_spec draw' X0 (rate ?self') = Inr (X0, xc', mm', im')"
    by blast
  from l obtain l0 where
    l0: "''y'' \<in> set (keys fh) \<and> return_labels ?self' \<Longrightarrow>
           \<exists>ys l. dict_get fh ''y'' = Inr ys \<and> getitem ys idx = Inr l \<and>
                  torch_tensor_long l = Inr l0"
    by (auto split: if_splits)
  have h': "file_handle ?self' = Some fh \<or>
        (file_handle ?self' = None \<and> open_file_handle h5 ?self' = Inr fh)"
    by simp
  from fetch_file_returns [where mcar = "mcar_spec draw'", OF h' st m' l0]
  have "fst (fetch_data_from_file h5 (mcar_spec draw') ?self' idx) =
          Inr ([torch_tensor idx, to X0 Float32, to xc' Float32, to mm' Float32, to im' Float32]
               @ (if ''y'' \<in> set (keys fh) \<and> return_labels ?self' then [l0] else []))"
    by simp
  with same s1 show ?thesis by simp
qed

section \<open>The claims\<close>

text \<open>C1. At every valid index, in in-memory mode and in file-backed mode, the fetch
  operation returns a sample whose fields are, in this order, the index, the original
  series, the corrupted series, the observed-value mask and the artificial mask (the four
  results of the corruption routine, in its order, each cast to float32), followed by the
  label as sixth field exactly when a label source exists and labels are enabled.\<close>

theorem fetch_field_order:
  "(X self = Some Xs \<and> getitem Xs idx = Inr X0 \<and>
    mcar X0 (rate self) = Inr (xi, xc, mm, im) \<and>
    (y self \<noteq> None \<and> return_labels self \<longrightarrow> getitem (the (y self)) idx = Inr l)
    \<longrightarrow> fst (fetch_data_from_array mcar self idx) =
          Inr ([torch_tensor idx, to xi Float32, to xc Float32, to mm Float32, to im Float32]
               @ (if y self \<noteq> None \<and> return_labels self then [to l Int64] else [])))
   \<and>
   ((file_handle self = Some fh \<or>
       (file_handle self = None \<and> open_file_handle h5 self = Inr fh)) \<and>
    dict_get fh ''X'' = Inr ds \<and> getitem ds idx = Inr X0 \<and> shape X0 \<noteq> [] \<and>
    mcar X0 (rate self) = Inr (xi, xc, mm, im) \<and>
    (''y'' \<in> set (keys fh) \<and> return_labels self \<longrightarrow>
       (\<exists>ys. dict_get fh ''y'' = Inr ys \<and> getitem ys idx = Inr l) \<and>
       torch_tensor_long l = Inr label)
    \<longrightarrow> fst (fetch_data_from_file h5 mcar self idx) =
          Inr ([torch_tensor idx, to xi Float32, to xc Float32, to mm Float32, to im Float32]
               @ (if ''y'' \<in> set (keys fh) \<and> return_labels self then [label] else [])))"
proof (intro conjI impI)
  assume a: "X self = Some Xs \<and> getitem Xs idx = Inr X0 \<and>
    mcar X0 (rate self) = Inr (xi, xc, mm, im) \<and>
    (y self \<noteq> None \<and> return_labels self \<longrightarrow> getitem (the (y self)) idx = Inr l)"
  then show "fst (fetch_data_from_array mcar self idx) =
          Inr ([torch_tensor idx, to xi Float32, to xc Float32, to mm Float32, to im Float32]
               @ (if y self \<noteq> None \<and> return_labels self then [to l Int64] else []))"
    using fetch_array_returns [of self Xs idx X0 mcar xi xc mm im l] by simp
next
  assume f: "(file_handle self = Some fh \<or>
       (file_handle self = None \<and> open_file_handle h5 self = Inr fh)) \<and>
    dict_get fh ''X'' = Inr ds \<and> getitem ds idx = Inr X0 \<and> shape X0 \<noteq> [] \<and>
    mcar X0 (rate self) = Inr (xi, xc, mm, im) \<and>
    (''y'' \<in> set (keys fh) \<and> return_labels self \<longrightarrow>
       (\<exists>ys. dict_get fh ''y'' = Inr ys \<and> getitem ys idx = Inr l) \<and>
       torch_tensor_long l = Inr label)"
  then show "fst (fetch_data_from_file h5 mcar self idx) =
          Inr ([torch_tensor idx, to xi Float32, to xc Float32, to mm Float32, to im Float32]
               @ (if ''y'' \<in> set (keys fh) \<and> return_labels self then [label] else []))"
    using fetch_file_returns [of self fh h5 ds idx X0 mcar xi xc mm im label] by auto
qed


theorem fetch_field_order_witness:
  "X ex_array = Some ex_X \<and> getitem ex_X 1 = Inr ex_X1 \<and>
   mcar_spec ex_draw0 ex_X1 (rate ex_array) =
     Inr (ex_X1, ex_corrupted, ex_missing_mask, ex_indicating_mask) \<and>
   y ex_array \<noteq> None \<and> return_labels ex_array \<and>
   getitem (the (y ex_array)) 1 = Inr ex_label \<and>
   fst (fetch_data_from_array (mcar_spec ex_draw0) ex_array 1) =
     Inr [torch_tensor 1, to ex_X1 Float32, to ex_corrupted Float32,
          to ex_missing_mask Float32, to ex_indicating_mask Float32, to ex_label Int64] \<and>
   file_handle ex_file = None \<and> open_file_handle ex_h5 ex_file = Inr ex_dict \<and>
   dict_get ex_dict ''X'' = Inr ex_X \<and> shape ex_X1 \<noteq> [] \<and>
   mcar_spec ex_draw0 ex_X1 (rate ex_file) =
     Inr (ex_X1, ex_corrupted, ex_missing_mask, ex_indicating_mask) \<and>
   ''y'' \<in> set (keys ex_dict) \<and> return_labels ex_file \<and>
   dict_get ex_dict ''y'' = Inr ex_y \<and> getitem ex_y 1 = Inr ex_label \<and>
   torch_tensor_long ex_label = Inr (to ex_label Int64) \<and>
   fst (fetch_data_from_file ex_h5 (mcar_spec ex_draw0) ex_file 1) =
     Inr [torch_tensor 1, to ex_X1 Float32, to ex_corrupted Float32,
          to ex_missing_mask Float32, to ex_indicating_mask Float32, to ex_label Int64]"
proof -
  have a: "X ex_array = Some ex_X \<and> getitem ex_X 1 = Inr ex_X1 \<and>
    mcar_spec ex_draw0 ex_X1 (rate ex_array) =
      Inr (ex_X1, ex_corrupted, ex_missing_mask, ex_indicating_mask) \<and>
    (y ex_array \<noteq> None \<and> return_labels ex_array \<longrightarrow>
       getitem (the (y ex_array)) 1 = Inr ex_label)"
    by (simp add: ex_array_def ex_getitem_X ex_getitem_y ex_mcar0)
  have f: "(file_handle ex_file = Some ex_dict \<or>
       (file_handle ex_file = None \<and> open_file_handle ex_h5 ex_file = Inr ex_dict)) \<and>
    dict_get ex_dict ''X'' = Inr ex_X \<and> getitem ex_X 1 = Inr ex_X1 \<and> shape ex_X1 \<noteq> [] \<and>
    mcar_spec ex_draw0 ex_X1 (rate ex_file) =
      Inr (ex_X1, ex_corrupted, ex_missing_mask, ex_indicating_mask) \<and>
    (''y'' \<in> set (keys ex_dict) \<and> return_labels ex_file \<longrightarrow>
       (\<exists>ys. dict_get ex_dict ''y'' = Inr ys \<and> getitem ys 1 = Inr ex_label) \<and>
       torch_tensor_long ex_label = Inr (to ex_label Int64))"
    by (simp add: ex_file_def open_file_handle_def ex_h5_def dict_get_def ex_dict_def
        ex_getitem_X ex_getitem_y ex_mcar0 ex_shape_X1 ex_label_long)
  have ya: "y ex_array \<noteq> None \<and> return_labels ex_array"
    by (simp add: ex_array_def)
  have yf: "''y'' \<in> set (keys ex_dict) \<and> return_labels ex_file"
    by (simp add: keys_def ex_dict_def ex_file_def)
  note t = fetch_field_order [where self = ex_array and Xs = ex_X and idx = 1 and ?X0.0 = ex_X1
      and mcar = "mcar_spec ex_draw0" and xi = ex_X1 and xc = ex_corrupted
      and mm = ex_missing_mask and im = ex_indicating_mask and l = ex_label]
  note u = fetch_field_order [where self = ex_file and fh = ex_dict and ?h5.0 = ex_h5 and ds = ex_X
      and idx = 1 and ?X0.0 = ex_X1
      and mcar = "mcar_spec ex_draw0" and xi = ex_X1 and xc = ex_corrupted
      and mm = ex_missing_mask and im = ex_indicating_mask and l = ex_label
      and label = "to ex_label Int64"]
  from t a ya have ra: "fst (fetch_data_from_array (mcar_spec ex_draw0) ex_array 1) =
     Inr [torch_tensor 1, to ex_X1 Float32, to ex_corrupted Float32,
          to ex_missing_mask Float32, to ex_indicating_mask Float32, to ex_label Int64]"
    by simp
  from u f yf have rf: "fst (fetch_data_from_file ex_h5 (mcar_spec ex_draw0) ex_file 1) =
     Inr [torch_tensor 1, to ex_X1 Float32, to ex_corrupted Float32,
          to ex_missing_mask Float32, to ex_indicating_mask Float32, to ex_label Int64]"
    by simp
  have d: "file_handle ex_file = None" "open_file_handle ex_h5 ex_file = Inr ex_dict"
    "dict_get ex_dict ''y'' = Inr ex_y"
    by (simp_all add: ex_file_def open_file_handle_def ex_h5_def dict_get_def ex_dict_def)
  from a f ya yf d ra rf ex_getitem_y ex_label_long show ?thesis by simp
qed

text \<open>C2. The sample returned at a valid index has exactly 5 elements when
  \<open>return_labels\<close> is false or no label source exists (in-memory mode: the field \<open>y\<close> is
  \<open>None\<close>, which is the case exactly when the data dict has no key \<open>y\<close>; file-backed mode:
  the file has no key \<open>y\<close>), and exactly 6 elements when labels exist and \<open>return_labels\<close>
  is true.\<close>

theorem sample_length:
  "(fst (fetch_data_from_array mcar self idx) = Inr s \<longrightarrow>
      length s = (if y self \<noteq> None \<and> return_labels self then 6 else 5)) \<and>
   (fst (fetch_data_from_file h5 mcar self idx) = Inr s \<and>
    (file_handle self = Some fh \<or>
       (file_handle self = None \<and> open_file_handle h5 self = Inr fh)) \<longrightarrow>
      length s = (if ''y'' \<in> set (keys fh) \<and> return_labels self then 6 else 5)) \<and>
   (init (Dict m) rl ft r = Inr self \<longrightarrow>
      (y self \<noteq> None) = (''y'' \<in> set (keys m)) \<and> return_labels self = rl)"
proof (intro conjI impI)
  assume "fst (fetch_data_from_array mcar self idx) = Inr s"
  from fetch_array_sample [OF this]
  show "length s = (if y self \<noteq> None \<and> return_labels self then 6 else 5)"
    by (auto split: if_splits)
next
  assume h: "fst (fetch_data_from_file h5 mcar self idx) = Inr s \<and>
    (file_handle self = Some fh \<or>
       (file_handle self = None \<and> open_file_handle h5 self = Inr fh))"
  then have "fst (fetch_data_from_file h5 mcar self idx) = Inr s" by simp
  from fetch_file_sample [OF this] h
  show "length s = (if ''y'' \<in> set (keys fh) \<and> return_labels self then 6 else 5)"
    by (auto split: if_splits)
next
  assume i: "init (Dict m) rl ft r = Inr self"
  then show "(y self \<noteq> None) = (''y'' \<in> set (keys m))"
    by (simp add: init_dict_fields(1) keys_map_of)
  from i show "return_labels self = rl"
    by (rule init_dict_fields(2))
qed


theorem sample_length_witness:
  "fst (fetch_data_from_array (mcar_spec ex_draw0) ex_array 1) = Inr ex_sample \<and>
   y ex_array \<noteq> None \<and> return_labels ex_array \<and> length ex_sample = 6 \<and>
   fst (fetch_data_from_array (mcar_spec ex_draw0) (ex_array\<lparr>return_labels := False\<rparr>) 1)
     = Inr (butlast ex_sample) \<and>
   length (butlast ex_sample) = 5 \<and>
   fst (fetch_data_from_file ex_h5 (mcar_spec ex_draw0) ex_file 1) = Inr ex_sample \<and>
   file_handle ex_file = None \<and> open_file_handle ex_h5 ex_file = Inr ex_dict \<and>
   ''y'' \<in> set (keys ex_dict) \<and> return_labels ex_file \<and>
   init (Dict ex_dict) True ''h5py'' (1 / 5) = Inr ex_array \<and>
   ''y'' \<in> set (keys ex_dict)"
proof -
  have ra: "fst (fetch_data_from_array (mcar_spec ex_draw0) ex_array 1) = Inr ex_sample"
    by (simp add: ex_fetch_array)
  have rb: "fst (fetch_data_from_array (mcar_spec ex_draw0) (ex_array\<lparr>return_labels := False\<rparr>) 1)
     = Inr (butlast ex_sample)"
    by (simp add: fetch_data_from_array_def ex_array_def ex_getitem_X ex_mcar0 ex_sample_def)
  have rf: "fst (fetch_data_from_file ex_h5 (mcar_spec ex_draw0) ex_file 1) = Inr ex_sample"
    by (simp add: ex_fetch_file)
  have h: "file_handle ex_file = None" "open_file_handle ex_h5 ex_file = Inr ex_dict"
    "''y'' \<in> set (keys ex_dict)" "return_labels ex_file"
    "y ex_array \<noteq> None" "return_labels ex_array"
    "y (ex_array\<lparr>return_labels := False\<rparr>) \<noteq> None"
    "\<not> return_labels (ex_array\<lparr>return_labels := False\<rparr>)"
    by (simp_all add: ex_file_def ex_array_def open_file_handle_def ex_h5_def keys_def ex_dict_def)
  note a = sample_length [where mcar = "mcar_spec ex_draw0" and self = ex_array and idx = 1
      and s = ex_sample and m = ex_dict and rl = True and ft = "''h5py''" and r = "1 / 5"]
  note b = sample_length [where mcar = "mcar_spec ex_draw0"
      and self = "ex_array\<lparr>return_labels := False\<rparr>" and idx = 1 and s = "butlast ex_sample"]
  note f = sample_length [where mcar = "mcar_spec ex_draw0" and self = ex_file and idx = 1
      and s = ex_sample and ?h5.0 = ex_h5 and fh = ex_dict]
  from a ra h have la: "length ex_sample = 6" by simp
  from b rb h have lb: "length (butlast ex_sample) = 5" by simp
  from f rf h have "length ex_sample = 6" by simp
  with la lb ra rb rf h ex_init_array show ?thesis by simp
qed

text \<open>C3. With the corruption routine as the spec describes it, in every sample returned
  by either fetch operation the observed-value mask and the artificial mask are 0/1
  indicators of the same shape as the series, every position that is 1 in the artificial
  mask is a position observed (not NaN) in the stored original series and in the returned
  one, and no position is 1 in both masks.\<close>

theorem artificial_mask_subset:
  "(fst (fetch_data_from_array (mcar_spec draw) self idx) = Inr s \<longrightarrow>
      (\<exists>Xs X0. X self = Some Xs \<and> getitem Xs idx = Inr X0 \<and>
         shape (s ! 3) = shape (s ! 4) \<and> shape (s ! 4) = shape (s ! 1) \<and>
         length (elems (s ! 3)) = length (elems (s ! 4)) \<and>
         length (elems (s ! 4)) = length (elems X0) \<and>
         (\<forall>p<length (elems (s ! 4)).
            (elems (s ! 3) ! p = FloatV 0 \<or> elems (s ! 3) ! p = FloatV 1) \<and>
            (elems (s ! 4) ! p = FloatV 0 \<or> elems (s ! 4) ! p = FloatV 1) \<and>
            (elems (s ! 4) ! p = FloatV 1 \<longrightarrow>
               elems X0 ! p \<noteq> NaN \<and> elems (s ! 1) ! p \<noteq> NaN \<and>
               elems (s ! 3) ! p \<noteq> FloatV 1)))) \<and>
   (fst (fetch_data_from_file h5 (mcar_spec draw) self idx) = Inr s \<longrightarrow>
      (\<exists>fh ds X0.
         (file_handle self = Some fh \<or>
            (file_handle self = None \<and> open_file_handle h5 self = Inr fh)) \<and>
         dict_get fh ''X'' = Inr ds \<and> getitem ds idx = Inr X0 \<and>
         shape (s ! 3) = shape (s ! 4) \<and> shape (s ! 4) = shape (s ! 1) \<and>
         length (elems (s ! 3)) = length (elems (s ! 4)) \<and>
         length (elems (s ! 4)) = length (elems X0) \<and>
         (\<forall>p<length (elems (s ! 4)).
            (elems (s ! 3) ! p = FloatV 0 \<or> elems (s ! 3) ! p = FloatV 1) \<and>
            (elems (s ! 4) ! p = FloatV 0 \<or> elems (s ! 4) ! p = FloatV 1) \<and>
            (elems (s ! 4) ! p = FloatV 1 \<longrightarrow>
               elems X0 ! p \<noteq> NaN \<and> elems (s ! 1) ! p \<noteq> NaN \<and>
               elems (s ! 3) ! p \<noteq> FloatV 1))))"
proof (intro conjI impI)
  assume "fst (fetch_data_from_array (mcar_spec draw) self idx) = Inr s"
  from fetch_array_sample [OF this]
  obtain Xs X0 xi xc mm im lab where st: "X self = Some Xs" "getitem Xs idx = Inr X0"
    and m: "mcar_spec draw X0 (rate self) = Inr (xi, xc, mm, im)"
    and s: "s = [torch_tensor idx, to xi Float32, to xc Float32, to mm Float32, to im Float32] @ lab"
    by blast
  note k = masks_of_sample [OF m s]
  from k(2) have sh: "shape (s ! 3) = shape (s ! 4)" "shape (s ! 4) = shape (s ! 1)" by simp_all
  from k(3) have len: "length (elems (s ! 3)) = length (elems (s ! 4))"
    "length (elems (s ! 4)) = length (elems X0)" by simp_all
  from k(4) len have "\<forall>p<length (elems (s ! 4)).
            (elems (s ! 3) ! p = FloatV 0 \<or> elems (s ! 3) ! p = FloatV 1) \<and>
            (elems (s ! 4) ! p = FloatV 0 \<or> elems (s ! 4) ! p = FloatV 1) \<and>
            (elems (s ! 4) ! p = FloatV 1 \<longrightarrow>
               elems X0 ! p \<noteq> NaN \<and> elems (s ! 1) ! p \<noteq> NaN \<and>
               elems (s ! 3) ! p \<noteq> FloatV 1)"
    by simp
  with st sh len show "\<exists>Xs X0. X self = Some Xs \<and> getitem Xs idx = Inr X0 \<and>
         shape (s ! 3) = shape (s ! 4) \<and> shape (s ! 4) = shape (s ! 1) \<and>
         length (elems (s ! 3)) = length (elems (s ! 4)) \<and>
         length (elems (s ! 4)) = length (elems X0) \<and>
         (\<forall>p<length (elems (s ! 4)).
            (elems (s ! 3) ! p = FloatV 0 \<or> elems (s ! 3) ! p = FloatV 1) \<and>
            (elems (s ! 4) ! p = FloatV 0 \<or> elems (s ! 4) ! p = FloatV 1) \<and>
            (elems (s ! 4) ! p = FloatV 1 \<longrightarrow>
               elems X0 ! p \<noteq> NaN \<and> elems (s ! 1) ! p \<noteq> NaN \<and>
               elems (s ! 3) ! p \<noteq> FloatV 1))"
    by blast
next
  assume "fst (fetch_data_from_file h5 (mcar_spec draw) self idx) = Inr s"
  from fetch_file_sample [OF this]
  obtain fh ds X0 xi xc mm im lab where st: "file_handle self = Some fh \<or>
            (file_handle self = None \<and> open_file_handle h5 self = Inr fh)"
      "dict_get fh ''X'' = Inr ds" "getitem ds idx = Inr X0"
    and m: "mcar_spec draw X0 (rate self) = Inr (xi, xc, mm, im)"
    and s: "s = [torch_tensor idx, to xi Float32, to xc Float32, to mm Float32, to im Float32] @ lab"
    by blast
  note k = masks_of_sample [OF m s]
  from k(2) have sh: "shape (s ! 3) = shape (s ! 4)" "shape (s ! 4) = shape (s ! 1)" by simp_all
  from k(3) have len: "length (elems (s ! 3)) = length (elems (s ! 4))"
    "length (elems (s ! 4)) = length (elems X0)" by simp_all
  from k(4) len have "\<forall>p<length (elems (s ! 4)).
            (elems (s ! 3) ! p = FloatV 0 \<or> elems (s ! 3) ! p = FloatV 1) \<and>
            (elems (s ! 4) ! p = FloatV 0 \<or> elems (s ! 4) ! p = FloatV 1) \<and>
            (elems (s ! 4) ! p = FloatV 1 \<longrightarrow>
               elems X0 ! p \<noteq> NaN \<and> elems (s ! 1) ! p \<noteq> NaN \<and>
               elems (s ! 3) ! p \<noteq> FloatV 1)"
    by simp
  with st sh len show "\<exists>fh ds X0.
         (file_handle self = Some fh \<or>
            (file_handle self = None \<and> open_file_handle h5 self = Inr fh)) \<and>
         dict_get fh ''X'' = Inr ds \<and> getitem ds idx = Inr X0 \<and>
         shape (s ! 3) = shape (s ! 4) \<and> shape (s ! 4) = shape (s ! 1) \<and>
         length (elems (s ! 3)) = length (elems (s ! 4)) \<and>
         length (elems (s ! 4)) = length (elems X0) \<and>
         (\<forall>p<length (elems (s ! 4)).
            (elems (s ! 3) ! p = FloatV 0 \<or> elems (s ! 3) ! p = FloatV 1) \<and>
            (elems (s ! 4) ! p = FloatV 0 \<or> elems (s ! 4) ! p = FloatV 1) \<and>
            (elems (s ! 4) ! p = FloatV 1 \<longrightarrow>
               elems X0 ! p \<noteq> NaN \<and> elems (s ! 1) ! p \<noteq> NaN \<and>
               elems (s ! 3) ! p \<noteq> FloatV 1))"
    by blast
qed

theorem artificial_mask_subset_witness:
  "fst (fetch_data_from_array (mcar_spec ex_draw0) ex_array 1) = Inr ex_sample \<and>
   fst (fetch_data_from_file ex_h5 (mcar_spec ex_draw0) ex_file 1) = Inr ex_sample \<and>
   X ex_array = Some ex_X \<and> getitem ex_X 1 = Inr ex_X1 \<and>
   0 < length (elems (ex_sample ! 4)) \<and> elems (ex_sample ! 4) ! 0 = FloatV 1 \<and>
   elems ex_X1 ! 0 \<noteq> NaN \<and> elems (ex_sample ! 1) ! 0 \<noteq> NaN \<and>
   elems (ex_sample ! 3) ! 0 \<noteq> FloatV 1 \<and>
   shape (ex_sample ! 3) = shape (ex_sample ! 4)"
proof -
  have ra: "fst (fetch_data_from_array (mcar_spec ex_draw0) ex_array 1) = Inr ex_sample"
    by (simp add: ex_fetch_array)
  have rf: "fst (fetch_data_from_file ex_h5 (mcar_spec ex_draw0) ex_file 1) = Inr ex_sample"
    by (simp add: ex_fetch_file)
  have x: "X ex_array = Some ex_X" "getitem ex_X 1 = Inr ex_X1"
    by (simp_all add: ex_array_def ex_getitem_X)
  have p: "0 < length (elems (ex_sample ! 4))" "elems (ex_sample ! 4) ! 0 = FloatV 1"
    by (simp_all add: ex_sample_value)
  note t = artificial_mask_subset [where draw = ex_draw0 and self = ex_array and idx = 1
      and s = ex_sample]
  note u = artificial_mask_subset [where draw = ex_draw0 and self = ex_file and idx = 1
      and s = ex_sample and ?h5.0 = ex_h5]
  from t ra obtain Xs X0 where a: "X ex_array = Some Xs" "getitem Xs 1 = Inr X0"
    "shape (ex_sample ! 3) = shape (ex_sample ! 4)"
    and q: "\<forall>p<length (elems (ex_sample ! 4)).
            (elems (ex_sample ! 3) ! p = FloatV 0 \<or> elems (ex_sample ! 3) ! p = FloatV 1) \<and>
            (elems (ex_sample ! 4) ! p = FloatV 0 \<or> elems (ex_sample ! 4) ! p = FloatV 1) \<and>
            (elems (ex_sample ! 4) ! p = FloatV 1 \<longrightarrow>
               elems X0 ! p \<noteq> NaN \<and> elems (ex_sample ! 1) ! p \<noteq> NaN \<and>
               elems (ex_sample ! 3) ! p \<noteq> FloatV 1)"
    by blast
  from a x have "X0 = ex_X1" by simp
  with q p have c: "elems ex_X1 ! 0 \<noteq> NaN \<and> elems (ex_sample ! 1) ! 0 \<noteq> NaN \<and>
      elems (ex_sample ! 3) ! 0 \<noteq> FloatV 1"
    by blast
  from u rf have "shape (ex_sample ! 3) = shape (ex_sample ! 4)"
    by blast
  with ra rf x p c show ?thesis by blast
qed

text \<open>C4. An adapter constructed in in-memory mode over the data \<open>D\<close> and one constructed in
  file-backed mode over a file that contains the same \<open>D\<close> (with the base constructor and
  the corruption routine as the spec describes them): the samples they return for the
  same index have the same original series as second element, whatever the random draws
  and however many samples the file-backed adapter has fetched before.\<close>

theorem modes_same_original:
  "h5 (Path p) = Inr D \<and>
   init (Dict D) rl ft r = Inr a \<and> init (Path p) rl' ft' r' = Inr b \<and>
   fst (fetch_data_from_array (mcar_spec draw) a idx) = Inr s \<and>
   fst (fetch_data_from_file h5 (mcar_spec draw') (after_fetches h5 b reqs) idx) = Inr s'
   \<longrightarrow> s ! 1 = s' ! 1"
proof (intro impI)
  assume h: "h5 (Path p) = Inr D \<and>
   init (Dict D) rl ft r = Inr a \<and> init (Path p) rl' ft' r' = Inr b \<and>
   fst (fetch_data_from_array (mcar_spec draw) a idx) = Inr s \<and>
   fst (fetch_data_from_file h5 (mcar_spec draw') (after_fetches h5 b reqs) idx) = Inr s'"
  then have ia: "init (Dict D) rl ft r = Inr a" and ib: "init (Path p) rl' ft' r' = Inr b"
    and ra: "fst (fetch_data_from_array (mcar_spec draw) a idx) = Inr s"
    and rb: "fst (fetch_data_from_file h5 (mcar_spec draw') (after_fetches h5 b reqs) idx) = Inr s'"
    and f: "h5 (Path p) = Inr D"
    by simp_all
  from init_dict_fields(4) [OF ia] obtain x where x: "dict_get D ''X'' = Inr x" "X a = Some x"
    by blast
  from fetch_array_sample [OF ra] x
  obtain X0 xi xc mm im lab where g: "getitem x idx = Inr X0"
    and m: "mcar_spec draw X0 (rate a) = Inr (xi, xc, mm, im)"
    and s: "s = [torch_tensor idx, to xi Float32, to xc Float32, to mm Float32, to im Float32] @ lab"
    by auto
  have s1: "s ! 1 = to X0 Float32"
    by (rule masks_of_sample(1) [OF m s])
  from init_path_fields [OF ib] f have "file_handle b = None" "open_file_handle h5 b = Inr D"
    by (simp_all add: open_file_handle_def)
  then have hd: "file_handle (after_fetches h5 b reqs) = Some D \<or>
         (file_handle (after_fetches h5 b reqs) = None \<and>
          open_file_handle h5 (after_fetches h5 b reqs) = Inr D)"
    by (rule after_fetches_handle)
  from fetch_file_sample [OF rb]
  obtain fh ds X0' xi' xc' mm' im' lab' where
    fh: "file_handle (after_fetches h5 b reqs) = Some fh \<or>
         (file_handle (after_fetches h5 b reqs) = None \<and>
          open_file_handle h5 (after_fetches h5 b reqs) = Inr fh)"
    and d: "dict_get fh ''X'' = Inr ds" and g': "getitem ds idx = Inr X0'"
    and m': "mcar_spec draw' X0' (rate (after_fetches h5 b reqs)) = Inr (xi', xc', mm', im')"
    and s': "s' = [torch_tensor idx, to xi' Float32, to xc' Float32, to mm' Float32, to im' Float32] @ lab'"
    by blast
  from hd fh have "fh = D" by auto
  with d x have "ds = x" by simp
  with g g' have "X0' = X0" by simp
  with masks_of_sample(1) [OF m' s'] have "s' ! 1 = to X0 Float32" by simp
  with s1 show "s ! 1 = s' ! 1" by simp
qed

theorem modes_same_original_witness:
  "ex_h5 (Path ''train.h5'') = Inr ex_dict \<and>
   init (Dict ex_dict) True ''h5py'' (1 / 5) = Inr ex_array \<and>
   init (Path ''train.h5'') True ''h5py'' (1 / 5) = Inr ex_file \<and>
   fst (fetch_data_from_array (mcar_spec ex_draw0) ex_array 1) = Inr ex_sample \<and>
   fst (fetch_data_from_file ex_h5 (mcar_spec ex_draw1)
          (after_fetches ex_h5 ex_file [(mcar_spec ex_draw0, 0)]) 1) = Inr ex_sample1 \<and>
   ex_sample ! 1 = ex_sample1 ! 1"
proof -
  have o: "ex_h5 (Path ''train.h5'') = Inr ex_dict"
    by (simp add: ex_h5_def)
  have ra: "fst (fetch_data_from_array (mcar_spec ex_draw0) ex_array 1) = Inr ex_sample"
    by (simp add: ex_fetch_array)
  have st: "after_fetches ex_h5 ex_file [(mcar_spec ex_draw0, 0)] =
      ex_file\<lparr>file_handle := Some ex_dict\<rparr>"
    by (simp add: fetch_file_state ex_file_def open_file_handle_def ex_h5_def)
  have rb: "fst (fetch_data_from_file ex_h5 (mcar_spec ex_draw1)
          (after_fetches ex_h5 ex_file [(mcar_spec ex_draw0, 0)]) 1) = Inr ex_sample1"
    by (simp only: st ex_fetch_file1 fst_conv)
  note t = modes_same_original [where ?h5.0 = ex_h5 and p = "''train.h5''" and D = ex_dict
      and rl = True and ft = "''h5py''" and r = "1 / 5" and a = ex_array
      and rl' = True and ft' = "''h5py''" and r' = "1 / 5" and b = ex_file
      and draw = ex_draw0 and draw' = ex_draw1 and idx = 1 and s = ex_sample
      and reqs = "[(mcar_spec ex_draw0, 0)]" and s' = ex_sample1]
  from t o ex_init_array ex_init_file ra rb have "ex_sample ! 1 = ex_sample1 ! 1"
    by blast
  with o ex_init_array ex_init_file ra rb show ?thesis by blast
qed

text \<open>C5. With the corruption routine as the spec describes it, when a fetch at an index
  returns a sample, a second fetch at the same index on the same adapter returns a sample
  too, with the same original series as second element, whatever the two random draws:
  the series is read from the stored data again and nothing of the first call is kept.
  The corrupted series of the two samples can differ.\<close>

theorem refetch_same_original:
  "(fst (fetch_data_from_array (mcar_spec draw) self idx) = Inr s \<longrightarrow>
      (\<exists>s'. fst (fetch_data_from_array (mcar_spec draw')
                   (snd (fetch_data_from_array (mcar_spec draw) self idx)) idx) = Inr s' \<and>
            s' ! 1 = s ! 1)) \<and>
   (fst (fetch_data_from_file h5 (mcar_spec draw) self idx) = Inr s \<longrightarrow>
      (\<exists>s'. fst (fetch_data_from_file h5 (mcar_spec draw')
                   (snd (fetch_data_from_file h5 (mcar_spec draw) self idx)) idx) = Inr s' \<and>
            s' ! 1 = s ! 1)) \<and>
   (\<exists>d d' a i t t'.
      fst (fetch_data_from_array (mcar_spec d) a i) = Inr t \<and>
      fst (fetch_data_from_array (mcar_spec d')
             (snd (fetch_data_from_array (mcar_spec d) a i)) i) = Inr t' \<and>
      t ! 2 \<noteq> t' ! 2)"
proof (intro conjI impI)
  assume "fst (fetch_data_from_array (mcar_spec draw) self idx) = Inr s"
  then show "\<exists>s'. fst (fetch_data_from_array (mcar_spec draw')
                   (snd (fetch_data_from_array (mcar_spec draw) self idx)) idx) = Inr s' \<and>
            s' ! 1 = s ! 1"
    by (rule refetch_array)
next
  assume "fst (fetch_data_from_file h5 (mcar_spec draw) self idx) = Inr s"
  then show "\<exists>s'. fst (fetch_data_from_file h5 (mcar_spec draw')
                   (snd (fetch_data_from_file h5 (mcar_spec draw) self idx)) idx) = Inr s' \<and>
            s' ! 1 = s ! 1"
    by (rule refetch_file)
next
  have "fst (fetch_data_from_array (mcar_spec ex_draw0) ex_array 1) = Inr ex_sample"
    by (simp add: ex_fetch_array)
  moreover have "fst (fetch_data_from_array (mcar_spec ex_draw1)
             (snd (fetch_data_from_array (mcar_spec ex_draw0) ex_array 1)) 1) = Inr ex_sample1"
    by (simp add: ex_fetch_array ex_fetch_array1)
  moreover have "ex_sample ! 2 \<noteq> ex_sample1 ! 2"
    by (simp add: ex_sample_value ex_sample1_value)
  ultimately show "\<exists>d d' a i t t'.
      fst (fetch_data_from_array (mcar_spec d) a i) = Inr t \<and>
      fst (fetch_data_from_array (mcar_spec d')
             (snd (fetch_data_from_array (mcar_spec d) a i)) i) = Inr t' \<and>
      t ! 2 \<noteq> t' ! 2"
    by blast
qed

theorem refetch_same_original_witness:
  "fst (fetch_data_from_array (mcar_spec ex_draw0) ex_array 1) = Inr ex_sample \<and>
   fst (fetch_data_from_array (mcar_spec ex_draw1)
          (snd (fetch_data_from_array (mcar_spec ex_draw0) ex_array 1)) 1) = Inr ex_sample1 \<and>
   fst (fetch_data_from_file ex_h5 (mcar_spec ex_draw0) ex_file 1) = Inr ex_sample \<and>
   fst (fetch_data_from_file ex_h5 (mcar_spec ex_draw1)
          (snd (fetch_data_from_file ex_h5 (mcar_spec ex_draw0) ex_file 1)) 1) = Inr ex_sample1 \<and>
   ex_sample1 ! 1 = ex_sample ! 1 \<and> ex_sample ! 2 \<noteq> ex_sample1 ! 2"
proof -
  have ra: "fst (fetch_data_from_array (mcar_spec ex_draw0) ex_array 1) = Inr ex_sample"
    by (simp add: ex_fetch_array)
  have ra': "fst (fetch_data_from_array (mcar_spec ex_draw1)
          (snd (fetch_data_from_array (mcar_spec ex_draw0) ex_array 1)) 1) = Inr ex_sample1"
    by (simp add: ex_fetch_array ex_fetch_array1)
  have rf: "fst (fetch_data_from_file ex_h5 (mcar_spec ex_draw0) ex_file 1) = Inr ex_sample"
    by (simp add: ex_fetch_file)
  have rf': "fst (fetch_data_from_file ex_h5 (mcar_spec ex_draw1)
          (snd (fetch_data_from_file ex_h5 (mcar_spec ex_draw0) ex_file 1)) 1) = Inr ex_sample1"
    by (simp add: ex_fetch_file ex_fetch_file1)
  have ne: "ex_sample ! 2 \<noteq> ex_sample1 ! 2"
    by (simp add: ex_sample_value ex_sample1_value)
  note t = refetch_same_original [where draw = ex_draw0 and draw' = ex_draw1
      and self = ex_array and idx = 1 and s = ex_sample]
  note u = refetch_same_original [where draw = ex_draw0 and draw' = ex_draw1
      and self = ex_file and idx = 1 and s = ex_sample and ?h5.0 = ex_h5]
  from t ra obtain s' where "fst (fetch_data_from_array (mcar_spec ex_draw1)
          (snd (fetch_data_from_array (mcar_spec ex_draw0) ex_array 1)) 1) = Inr s'"
    and "s' ! 1 = ex_sample ! 1"
    by blast
  with ra' have e: "ex_sample1 ! 1 = ex_sample ! 1" by simp
  from u rf obtain s'' where "fst (fetch_data_from_file ex_h5 (mcar_spec ex_draw1)
          (snd (fetch_data_from_file ex_h5 (mcar_spec ex_draw0) ex_file 1)) 1) = Inr s''"
    and "s'' ! 1 = ex_sample ! 1"
    by blast
  with rf' have "ex_sample1 ! 1 = ex_sample ! 1" by simp
  with ra ra' rf rf' ne show ?thesis by blast
qed

text \<open>C6. In both modes the original series, the corrupted series, the observed-value
  mask and the artificial mask of a returned sample have dtype float32, and the label,
  when the sample has one, has dtype int64.\<close>

theorem sample_dtypes:
  "(fst (fetch_data_from_array mcar self idx) = Inr s \<longrightarrow>
      dtype_of (s ! 1) = Float32 \<and> dtype_of (s ! 2) = Float32 \<and>
      dtype_of (s ! 3) = Float32 \<and> dtype_of (s ! 4) = Float32 \<and>
      (length s = 6 \<longrightarrow> dtype_of (s ! 5) = Int64)) \<and>
   (fst (fetch_data_from_file h5 mcar self idx) = Inr s \<longrightarrow>
      dtype_of (s ! 1) = Float32 \<and> dtype_of (s ! 2) = Float32 \<and>
      dtype_of (s ! 3) = Float32 \<and> dtype_of (s ! 4) = Float32 \<and>
      (length s = 6 \<longrightarrow> dtype_of (s ! 5) = Int64))"
proof (intro conjI impI)
  assume r: "fst (fetch_data_from_array mcar self idx) = Inr s"
  from fetch_array_sample [OF r]
  show "dtype_of (s ! 1) = Float32" "dtype_of (s ! 2) = Float32"
    "dtype_of (s ! 3) = Float32" "dtype_of (s ! 4) = Float32"
    by (auto simp add: to_def)
  assume "length s = 6"
  with fetch_array_sample [OF r] show "dtype_of (s ! 5) = Int64"
    by (auto simp add: to_def split: if_splits)
next
  assume r: "fst (fetch_data_from_file h5 mcar self idx) = Inr s"
  from fetch_file_sample [OF r]
  show "dtype_of (s ! 1) = Float32" "dtype_of (s ! 2) = Float32"
    "dtype_of (s ! 3) = Float32" "dtype_of (s ! 4) = Float32"
    by (auto simp add: to_def)
  assume "length s = 6"
  with fetch_file_sample [OF r] show "dtype_of (s ! 5) = Int64"
    by (auto simp add: to_def split: if_splits)
qed

theorem sample_dtypes_witness:
  "fst (fetch_data_from_array (mcar_spec ex_draw0) ex_array 1) = Inr ex_sample \<and>
   fst (fetch_data_from_file ex_h5 (mcar_spec ex_draw0) ex_file 1) = Inr ex_sample \<and>
   length ex_sample = 6 \<and>
   dtype_of (ex_sample ! 1) = Float32 \<and> dtype_of (ex_sample ! 2) = Float32 \<and>
   dtype_of (ex_sample ! 3) = Float32 \<and> dtype_of (ex_sample ! 4) = Float32 \<and>
   dtype_of (ex_sample ! 5) = Int64"
proof -
  have ra: "fst (fetch_data_from_array (mcar_spec ex_draw0) ex_array 1) = Inr ex_sample"
    by (simp add: ex_fetch_array)
  have rf: "fst (fetch_data_from_file ex_h5 (mcar_spec ex_draw0) ex_file 1) = Inr ex_sample"
    by (simp add: ex_fetch_file)
  have l: "length ex_sample = 6"
    by (simp add: ex_sample_def)
  note t = sample_dtypes [where mcar = "mcar_spec ex_draw0" and self = ex_array and idx = 1
      and s = ex_sample]
  note u = sample_dtypes [where mcar = "mcar_spec ex_draw0" and self = ex_file and idx = 1
      and s = ex_sample and ?h5.0 = ex_h5]
  from t ra l have a: "dtype_of (ex_sample ! 1) = Float32 \<and> dtype_of (ex_sample ! 2) = Float32 \<and>
      dtype_of (ex_sample ! 3) = Float32 \<and> dtype_of (ex_sample ! 4) = Float32 \<and>
      dtype_of (ex_sample ! 5) = Int64"
    by blast
  from u rf l have "dtype_of (ex_sample ! 5) = Int64"
    by blast
  with a ra rf l show ?thesis by blast
qed





text \<open>C9. With the corruption routine as the spec describes it, the original series and
  the corrupted series of every returned sample have the same shape (and the same number
  of elements).\<close>

theorem original_corrupted_same_shape:
  "(fst (fetch_data_from_array (mcar_spec draw) self idx) = Inr s \<longrightarrow>
      shape (s ! 1) = shape (s ! 2) \<and> length (elems (s ! 1)) = length (elems (s ! 2))) \<and>
   (fst (fetch_data_from_file h5 (mcar_spec draw) self idx) = Inr s \<longrightarrow>
      shape (s ! 1) = shape (s ! 2) \<and> length (elems (s ! 1)) = length (elems (s ! 2)))"
proof (intro conjI impI)
  assume "fst (fetch_data_from_array (mcar_spec draw) self idx) = Inr s"
  from fetch_array_sample [OF this]
  obtain X0 xi xc mm im lab
    where m: "mcar_spec draw X0 (rate self) = Inr (xi, xc, mm, im)"
    and s: "s = [torch_tensor idx, to xi Float32, to xc Float32, to mm Float32, to im Float32] @ lab"
    by blast
  from masks_of_sample(2) [OF m s] show "shape (s ! 1) = shape (s ! 2)" by simp
  from masks_of_sample(3) [OF m s] show "length (elems (s ! 1)) = length (elems (s ! 2))" by simp
next
  assume "fst (fetch_data_from_file h5 (mcar_spec draw) self idx) = Inr s"
  from fetch_file_sample [OF this]
  obtain X0 xi xc mm im lab
    where m: "mcar_spec draw X0 (rate self) = Inr (xi, xc, mm, im)"
    and s: "s = [torch_tensor idx, to xi Float32, to xc Float32, to mm Float32, to im Float32] @ lab"
    by blast
  from masks_of_sample(2) [OF m s] show "shape (s ! 1) = shape (s ! 2)" by simp
  from masks_of_sample(3) [OF m s] show "length (elems (s ! 1)) = length (elems (s ! 2))" by simp
qed

theorem original_corrupted_same_shape_witness:
  "fst (fetch_data_from_array (mcar_spec ex_draw0) ex_array 1) = Inr ex_sample \<and>
   fst (fetch_data_from_file ex_h5 (mcar_spec ex_draw0) ex_file 1) = Inr ex_sample \<and>
   shape (ex_sample ! 1) = [2, 1] \<and> shape (ex_sample ! 2) = [2, 1] \<and>
   shape (ex_sample ! 1) = shape (ex_sample ! 2) \<and>
   length (elems (ex_sample ! 1)) = length (elems (ex_sample ! 2))"
proof -
  have ra: "fst (fetch_data_from_array (mcar_spec ex_draw0) ex_array 1) = Inr ex_sample"
    by (simp add: ex_fetch_array)
  have rf: "fst (fetch_data_from_file ex_h5 (mcar_spec ex_draw0) ex_file 1) = Inr ex_sample"
    by (simp add: ex_fetch_file)
  have v: "shape (ex_sample ! 1) = [2, 1]" "shape (ex_sample ! 2) = [2, 1]"
    by (simp_all add: ex_sample_value)
  note t = original_corrupted_same_shape [where draw = ex_draw0 and self = ex_array
      and idx = 1 and s = ex_sample]
  note u = original_corrupted_same_shape [where draw = ex_draw0 and self = ex_file
      and idx = 1 and s = ex_sample and ?h5.0 = ex_h5]
  from t ra have a: "shape (ex_sample ! 1) = shape (ex_sample ! 2) \<and>
      length (elems (ex_sample ! 1)) = length (elems (ex_sample ! 2))"
    by blast
  from u rf have "shape (ex_sample ! 1) = shape (ex_sample ! 2)"
    by blast
  with a ra rf v show ?thesis by blast
qed

text \<open>C10. In both modes the first element of a returned sample is a zero-dimensional
  int64 tensor (a tensor, as every element of the sample) whose value is the requested
  index.\<close>

theorem sample_index:
  "(fst (fetch_data_from_array mcar self idx) = Inr s \<longrightarrow>
      s ! 0 = torch_tensor idx \<and>
      dtype_of (s ! 0) = Int64 \<and> shape (s ! 0) = [] \<and> elems (s ! 0) = [IntV idx]) \<and>
   (fst (fetch_data_from_file h5 mcar self idx) = Inr s \<longrightarrow>
      s ! 0 = torch_tensor idx \<and>
      dtype_of (s ! 0) = Int64 \<and> shape (s ! 0) = [] \<and> elems (s ! 0) = [IntV idx])"
proof (intro conjI impI)
  assume r: "fst (fetch_data_from_array mcar self idx) = Inr s"
  from fetch_array_sample [OF r] show "s ! 0 = torch_tensor idx" by auto
  then show "dtype_of (s ! 0) = Int64" "shape (s ! 0) = []" "elems (s ! 0) = [IntV idx]"
    by (simp_all add: torch_tensor_def)
next
  assume r: "fst (fetch_data_from_file h5 mcar self idx) = Inr s"
  from fetch_file_sample [OF r] show "s ! 0 = torch_tensor idx" by auto
  then show "dtype_of (s ! 0) = Int64" "shape (s ! 0) = []" "elems (s ! 0) = [IntV idx]"
    by (simp_all add: torch_tensor_def)
qed

theorem sample_index_witness:
  "fst (fetch_data_from_array (mcar_spec ex_draw0) ex_array 1) = Inr ex_sample \<and>
   fst (fetch_data_from_file ex_h5 (mcar_spec ex_draw0) ex_file 1) = Inr ex_sample \<and>
   ex_sample ! 0 = torch_tensor 1 \<and>
   dtype_of (ex_sample ! 0) = Int64 \<and> shape (ex_sample ! 0) = [] \<and>
   elems (ex_sample ! 0) = [IntV 1]"
proof -
  have ra: "fst (fetch_data_from_array (mcar_spec ex_draw0) ex_array 1) = Inr ex_sample"
    by (simp add: ex_fetch_array)
  have rf: "fst (fetch_data_from_file ex_h5 (mcar_spec ex_draw0) ex_file 1) = Inr ex_sample"
    by (simp add: ex_fetch_file)
  note t = sample_index [where mcar = "mcar_spec ex_draw0" and self = ex_array and idx = 1
      and s = ex_sample]
  note u = sample_index [where mcar = "mcar_spec ex_draw0" and self = ex_file and idx = 1
      and s = ex_sample and ?h5.0 = ex_h5]
  from t ra have a: "ex_sample ! 0 = torch_tensor 1 \<and>
      dtype_of (ex_sample ! 0) = Int64 \<and> shape (ex_sample ! 0) = [] \<and>
      elems (ex_sample ! 0) = [IntV 1]"
    by blast
  from u rf have "ex_sample ! 0 = torch_tensor 1"
    by blast
  with a ra rf show ?thesis by blast
qed

end
